theory Spec2Isabelle
  imports Main
begin

section \<open>JavaScript values\<close>

text \<open>
  The node reads the SDK's records through \<^verbatim>\<open>as any\<close>, with optional chaining, truthiness
  tests and comparisons against \<^verbatim>\<open>undefined\<close>. The records are therefore modelled as
  untyped JavaScript values: an object is an association list from keys to values, in
  insertion order. Numbers are integers here: the node never computes with a number of a
  record, it only tests it for truthiness, copies it and prints it.
\<close>

datatype jsval =
    JUndefined
  | JNull
  | JBool bool
  | JNum int
  | JStr string
  | JArr "jsval list"
  | JObj "(string \<times> jsval) list"

type_synonym jsobj = "(string \<times> jsval) list"

text \<open>Truthiness, as \<^verbatim>\<open>if (v)\<close>, \<^verbatim>\<open>!!v\<close> and \<^verbatim>\<open>v || d\<close> see it.\<close>

fun truthy :: "jsval \<Rightarrow> bool" where
  "truthy JUndefined = False"
| "truthy JNull = False"
| "truthy (JBool b) = b"
| "truthy (JNum n) = (n \<noteq> 0)"
| "truthy (JStr s) = (s \<noteq> [])"
| "truthy (JArr vs) = True"
| "truthy (JObj m) = True"

text \<open>\<^verbatim>\<open>a || b\<close>\<close>

definition js_or :: "jsval \<Rightarrow> jsval \<Rightarrow> jsval" where
  "js_or a b = (if truthy a then a else b)"

text \<open>\<^verbatim>\<open>o.k\<close> on an object: a missing key reads as \<^verbatim>\<open>undefined\<close>.\<close>

definition field :: "jsobj \<Rightarrow> string \<Rightarrow> jsval" where
  "field m k = (case map_of m k of None \<Rightarrow> JUndefined | Some v \<Rightarrow> v)"

text \<open>\<^verbatim>\<open>o?.k\<close> where \<^verbatim>\<open>o\<close> is the result of \<^verbatim>\<open>Array.prototype.find\<close>: an object or undefined.\<close>

fun opt_field :: "jsobj option \<Rightarrow> string \<Rightarrow> jsval" where
  "opt_field None k = JUndefined"
| "opt_field (Some m) k = field m k"

text \<open>
  \<^verbatim>\<open>v?.k\<close> on an arbitrary value, for the keys the node reads (\<^verbatim>\<open>content\<close>, \<^verbatim>\<open>type\<close>,
  \<^verbatim>\<open>text\<close>): only an object has them.
\<close>

fun member :: "jsval \<Rightarrow> string \<Rightarrow> jsval" where
  "member (JObj m) k = field m k"
| "member v k = JUndefined"

text \<open>\<^verbatim>\<open>v?.[0]\<close>: the first element of an array, the first character of a string.\<close>

fun index0 :: "jsval \<Rightarrow> jsval" where
  "index0 (JArr []) = JUndefined"
| "index0 (JArr (v # vs)) = v"
| "index0 (JStr []) = JUndefined"
| "index0 (JStr (c # cs)) = JStr [c]"
| "index0 (JObj m) = field m ''0''"
| "index0 v = JUndefined"

definition nullish :: "jsval \<Rightarrow> bool" where
  "nullish v = (v = JUndefined \<or> v = JNull)"

text \<open>\<^verbatim>\<open>o.k = v\<close>: an existing key keeps its place, a new key goes last.\<close>

fun set_field :: "jsobj \<Rightarrow> string \<Rightarrow> jsval \<Rightarrow> jsobj" where
  "set_field [] k v = [(k, v)]"
| "set_field ((k', v') # m) k v =
     (if k' = k then (k, v) # m else (k', v') # set_field m k v)"

definition keys :: "jsobj \<Rightarrow> string list" where
  "keys m = map fst m"

subsection \<open>Conversion to string\<close>

fun digits :: "nat \<Rightarrow> string" where
  "digits n =
     (if n < 10 then [''0123456789'' ! n]
      else digits (n div 10) @ [''0123456789'' ! (n mod 10)])"

declare digits.simps [simp del]

definition show_int :: "int \<Rightarrow> string" where
  "show_int i = (if i < 0 then CHR ''-'' # digits (nat (- i)) else digits (nat i))"

fun join_comma :: "string list \<Rightarrow> string" where
  "join_comma [] = []"
| "join_comma [s] = s"
| "join_comma (s # t # ss) = s @ '','' @ join_comma (t # ss)"

text \<open>\<^verbatim>\<open>String(v)\<close>\<close>

fun js_String :: "jsval \<Rightarrow> string" where
  "js_String JUndefined = ''undefined''"
| "js_String JNull = ''null''"
| "js_String (JBool b) = (if b then ''true'' else ''false'')"
| "js_String (JNum n) = show_int n"
| "js_String (JStr s) = s"
| "js_String (JArr vs) =
     join_comma (map (\<lambda>v. if v = JUndefined \<or> v = JNull then [] else js_String v) vs)"
| "js_String (JObj m) = ''[object Object]''"

subsection \<open>Strings\<close>

text \<open>\<^verbatim>\<open>s.includes(sub)\<close>\<close>

fun str_includes :: "string \<Rightarrow> string \<Rightarrow> bool" where
  "str_includes [] sub = (sub = [])"
| "str_includes (c # cs) sub = (take (length sub) (c # cs) = sub \<or> str_includes cs sub)"

text \<open>\<^verbatim>\<open>s.trim()\<close>, on the white space a one-byte character can be.\<close>

definition is_space :: "char \<Rightarrow> bool" where
  "is_space c = (c \<in> set [CHR 0x09, CHR 0x0A, CHR 0x0B, CHR 0x0C, CHR 0x0D, CHR 0x20, CHR 0xA0])"

definition trim :: "string \<Rightarrow> string" where
  "trim s = rev (dropWhile is_space (rev (dropWhile is_space s)))"

section \<open>Query Invoker: the options of the SDK call\<close>

record additional_options =
  systemPrompt :: "string option"
  requirePermissions :: bool
  debug :: bool

record params =
  operation :: string
  prompt :: string
  model :: string
  maxTurns :: int
  timeout :: int
  projectPath :: string
  outputFormat :: string
  allowedTools :: "string list"
  settingSources :: "string list"
  additionalOptions :: additional_options

text \<open>
  \<^verbatim>\<open>queryOptions.options\<close>: three required keys and six optional ones, of which the node
  sets five. An optional key that was never assigned is \<open>None\<close>.
\<close>

record sdk_options =
  opt_maxTurns :: int
  opt_permissionMode :: string
  opt_model :: string
  opt_systemPrompt :: "string option"
  opt_cwd :: "string option"
  opt_allowedTools :: "string list option"
  opt_settingSources :: "string list option"
  opt_continue :: "bool option"

definition build_options :: "params \<Rightarrow> sdk_options" where
  "build_options p =
     (let o0 = \<lparr> opt_maxTurns = maxTurns p,
                 opt_permissionMode =
                   (if requirePermissions (additionalOptions p) then ''default''
                    else ''bypassPermissions''),
                 opt_model = model p,
                 opt_systemPrompt = None, opt_cwd = None, opt_allowedTools = None,
                 opt_settingSources = None, opt_continue = None \<rparr>;
          o1 = (case systemPrompt (additionalOptions p) of
                  Some s \<Rightarrow> if s \<noteq> [] then o0\<lparr>opt_systemPrompt := Some s\<rparr> else o0
                | None \<Rightarrow> o0);
          o2 = (if projectPath p \<noteq> [] \<and> trim (projectPath p) \<noteq> []
                then o1\<lparr>opt_cwd := Some (trim (projectPath p))\<rparr> else o1);
          o3 = (if length (allowedTools p) > 0
                then o2\<lparr>opt_allowedTools := Some (allowedTools p)\<rparr> else o2);
          o4 = (if length (settingSources p) > 0
                then o3\<lparr>opt_settingSources := Some (settingSources p)\<rparr> else o3);
          o5 = (if operation p = ''continue'' then o4\<lparr>opt_continue := Some True\<rparr> else o4)
      in o5)"

section \<open>Output Formatter\<close>

text \<open>\<^verbatim>\<open>m.type === t\<close>\<close>

definition is_type :: "string \<Rightarrow> jsobj \<Rightarrow> bool" where
  "is_type t m = (field m ''type'' = JStr t)"

text \<open>
  \<^verbatim>\<open>messages.find((m) => m.type === 'result')\<close>: \<open>find\<close> of the list library returns the
  first element that satisfies the test, or \<open>None\<close>, as \<^verbatim>\<open>Array.prototype.find\<close> does.
\<close>

definition find_result :: "jsobj list \<Rightarrow> jsobj option" where
  "find_result messages = find (is_type ''result'') messages"

definition find_init :: "jsobj list \<Rightarrow> jsobj option" where
  "find_init messages =
     find (\<lambda>m. is_type ''system'' m \<and> field m ''subtype'' = JStr ''init'') messages"

subsection \<open>text\<close>

definition format_text :: "jsobj list \<Rightarrow> jsobj" where
  "format_text messages =
     (let resultMessage = find_result messages;
          response =
            [(''result'',
                JStr (js_String
                  (js_or (js_or (opt_field resultMessage ''result'')
                                (opt_field resultMessage ''error''))
                         (JStr ''No result available'')))),
             (''success'',
                JBool (opt_field resultMessage ''subtype'' = JStr ''success'' \<or> False))];
          response1 =
            (if opt_field resultMessage ''duration_ms'' \<noteq> JUndefined
             then set_field response ''duration_ms'' (opt_field resultMessage ''duration_ms'')
             else response);
          response2 =
            (if opt_field resultMessage ''total_cost_usd'' \<noteq> JUndefined
             then set_field response1 ''total_cost_usd''
                    (opt_field resultMessage ''total_cost_usd'')
             else response1)
      in response2)"

subsection \<open>messages\<close>

definition cleanMsg :: "jsobj \<Rightarrow> jsobj" where
  "cleanMsg msg =
     (let c0 = [(''type'', field msg ''type'')];
          c1 = (if truthy (field msg ''message'')
                then set_field c0 ''message'' (field msg ''message'') else c0);
          c2 = (if truthy (field msg ''result'')
                then set_field c1 ''result'' (field msg ''result'') else c1);
          c3 = (if truthy (field msg ''error'')
                then set_field c2 ''error'' (field msg ''error'') else c2);
          c4 = (if truthy (field msg ''subtype'')
                then set_field c3 ''subtype'' (field msg ''subtype'') else c3)
      in c4)"

definition format_messages :: "jsobj list \<Rightarrow> jsobj" where
  "format_messages messages =
     [(''messages'', JArr (map (\<lambda>msg. JObj (cleanMsg msg)) messages)),
      (''messageCount'', JNum (int (length messages)))]"

subsection \<open>structured\<close>

text \<open>\<^verbatim>\<open>m.type === 'assistant' && m.message?.content?.[0]?.type === 'tool_use'\<close>\<close>

definition is_tool_use :: "jsobj \<Rightarrow> bool" where
  "is_tool_use m =
     (is_type ''assistant'' m \<and>
      member (index0 (member (field m ''message'') ''content'')) ''type'' = JStr ''tool_use'')"

definition metrics_block :: "jsobj \<Rightarrow> jsobj" where
  "metrics_block resultMessage =
     [(''duration_ms'', js_or (field resultMessage ''duration_ms'') (JNum 0)),
      (''num_turns'', js_or (field resultMessage ''num_turns'') (JNum 0)),
      (''total_cost_usd'', js_or (field resultMessage ''total_cost_usd'') (JNum 0)),
      (''usage'', js_or (field resultMessage ''usage'') (JObj []))]"

definition format_structured :: "bool \<Rightarrow> jsobj list \<Rightarrow> jsobj" where
  "format_structured dbg messages =
     (let userMessages = filter (is_type ''user'') messages;
          assistantMessages = filter (is_type ''assistant'') messages;
          toolUses = filter is_tool_use messages;
          systemInit = find_init messages;
          resultMessage = find_result messages;
          response =
            [(''summary'', JObj
                [(''userMessageCount'', JNum (int (length userMessages))),
                 (''assistantMessageCount'', JNum (int (length assistantMessages))),
                 (''toolUseCount'', JNum (int (length toolUses))),
                 (''hasResult'', JBool (resultMessage \<noteq> None)),
                 (''toolsAvailable'', js_or (opt_field systemInit ''tools'') (JArr []))]),
             (''success'', JBool (opt_field resultMessage ''subtype'' = JStr ''success''))];
          response1 =
            (if truthy (opt_field resultMessage ''result'')
             then set_field response ''result'' (opt_field resultMessage ''result'')
             else if truthy (opt_field resultMessage ''error'')
             then set_field response ''error'' (opt_field resultMessage ''error'')
             else response);
          response2 =
            (case resultMessage of
               Some r \<Rightarrow>
                 if field r ''duration_ms'' \<noteq> JUndefined
                 then set_field response1 ''metrics'' (JObj (metrics_block r))
                 else response1
             | None \<Rightarrow> response1);
          response3 =
            (if dbg then set_field response2 ''messages'' (JArr (map JObj messages))
             else response2)
      in response3)"

subsection \<open>The selector\<close>

text \<open>
  The \<^verbatim>\<open>if / else if / else if\<close> chain on \<^verbatim>\<open>outputFormat\<close> has no final \<^verbatim>\<open>else\<close>: nothing is
  pushed for any other selector.
\<close>

definition format_output :: "string \<Rightarrow> bool \<Rightarrow> jsobj list \<Rightarrow> jsobj option" where
  "format_output fmt dbg messages =
     (if fmt = ''text'' then Some (format_text messages)
      else if fmt = ''messages'' then Some (format_messages messages)
      else if fmt = ''structured'' then Some (format_structured dbg messages)
      else None)"

section \<open>Thrown values\<close>

text \<open>
  JavaScript throws any value. \<open>Thrown_Error\<close> is an instance of \<^verbatim>\<open>Error\<close> with its
  \<^verbatim>\<open>name\<close>, \<^verbatim>\<open>message\<close> and \<^verbatim>\<open>stack\<close> (which the language leaves optional);
  \<open>Thrown_Value\<close> is anything else.
\<close>

datatype thrown =
    Thrown_Error (err_name: string) (err_message: string) (err_stack: "string option")
  | Thrown_Value jsval

text \<open>
  The errors the node's own code raises. Of the engine's stack trace only the first line,
  \<^verbatim>\<open>name: message\<close>, is kept; the frames after it are the engine's.
\<close>

definition new_error :: "string \<Rightarrow> string \<Rightarrow> thrown" where
  "new_error n msg = Thrown_Error n msg (Some (n @ '': '' @ msg))"

definition prompt_required :: thrown where
  "prompt_required = new_error ''NodeOperationError'' ''Prompt is required and cannot be empty''"

text \<open>Reading property \<open>k\<close> of \<^verbatim>\<open>undefined\<close> or \<^verbatim>\<open>null\<close>, in the engine's words.\<close>

definition cannot_read :: "jsval \<Rightarrow> string \<Rightarrow> thrown" where
  "cannot_read v k =
     new_error ''TypeError''
       (''Cannot read properties of '' @ js_String v @ '' (reading '' @ [CHR 0x27] @ k
          @ [CHR 0x27] @ '')'')"

section \<open>Message Classifier and Aggregator: draining the stream\<close>

text \<open>
  The progress tracking inside the \<^verbatim>\<open>for await\<close> loop. It only logs, and only in debug
  mode; but there it reads \<^verbatim>\<open>content.type\<close> and \<^verbatim>\<open>content.text.substring\<close> without optional
  chaining, so a first content block that is missing, or a text block without a string,
  raises a \<^verbatim>\<open>TypeError\<close> out of the loop.
\<close>

definition track_progress :: "bool \<Rightarrow> jsobj \<Rightarrow> thrown option" where
  "track_progress dbg message =
     (if is_type ''assistant'' message
         \<and> truthy (member (field message ''message'') ''content'')
      then
        (let content = index0 (member (field message ''message'') ''content'') in
         if dbg then
           (if nullish content then Some (cannot_read content ''type'')
            else if member content ''type'' = JStr ''text'' then
              (let text = member content ''text'' in
               if nullish text then Some (cannot_read text ''substring'')
               else (case text of
                       JStr s \<Rightarrow> None
                     | _ \<Rightarrow> Some (new_error ''TypeError''
                                  ''content.text.substring is not a function'')))
            else None)
         else None)
      else None)"

fun drain :: "bool \<Rightarrow> jsobj list \<Rightarrow> thrown option" where
  "drain dbg [] = None"
| "drain dbg (message # rest) =
     (case track_progress dbg message of
        Some e \<Rightarrow> Some e
      | None \<Rightarrow> drain dbg rest)"

text \<open>
  The external SDK call \<^verbatim>\<open>query({prompt, abortController, options})\<close> is a parameter of
  the model. What it returns is the sequence of records it yields and, when the iteration
  ends by a throw (a failed spawn, an \<^verbatim>\<open>AbortError\<close> after the timer fired), the value thrown.
\<close>

record sdk_stream =
  records :: "jsobj list"
  failure :: "thrown option"

type_synonym sdk = "string \<times> sdk_options \<Rightarrow> sdk_stream"

section \<open>One item\<close>

text \<open>
  The armed timers are part of the state: \<^verbatim>\<open>setTimeout\<close> adds the item's timer,
  \<^verbatim>\<open>clearTimeout\<close> removes it. What is still in the list when an item is left is pending.
\<close>

definition setTimeout :: "nat \<Rightarrow> nat list \<Rightarrow> nat list" where
  "setTimeout tid timers = timers @ [tid]"

definition clearTimeout :: "nat \<Rightarrow> nat list \<Rightarrow> nat list" where
  "clearTimeout tid timers = filter (\<lambda>t. t \<noteq> tid) timers"

text \<open>
  The body of the outer \<^verbatim>\<open>try\<close> for the item at \<open>itemIndex\<close>, from the creation of the
  abort controller on: the thrown value or the output record to push (if any), and the
  timers armed afterwards.
\<close>

definition try_item ::
  "sdk \<Rightarrow> nat \<Rightarrow> params \<Rightarrow> nat list \<Rightarrow> (thrown + jsobj option) \<times> nat list" where
  "try_item query itemIndex p timers =
     (let timers1 = setTimeout itemIndex timers in
      if prompt p = [] \<or> trim (prompt p) = [] then (Inl prompt_required, timers1)
      else
        (let stream = query (prompt p, build_options p) in
         case drain (debug (additionalOptions p)) (records stream) of
           Some e \<Rightarrow> (Inl e, clearTimeout itemIndex timers1)
         | None \<Rightarrow>
             (case failure stream of
                Some e \<Rightarrow> (Inl e, clearTimeout itemIndex timers1)
              | None \<Rightarrow>
                  (Inr (format_output (outputFormat p) (debug (additionalOptions p))
                          (records stream)),
                   clearTimeout itemIndex timers1))))"

section \<open>Failure Translator\<close>

definition errorMessage :: "thrown \<Rightarrow> string" where
  "errorMessage e =
     (case e of Thrown_Error n m s \<Rightarrow> m | Thrown_Value v \<Rightarrow> ''An unknown error occurred'')"

definition isTimeout :: "thrown \<Rightarrow> bool" where
  "isTimeout e = (case e of Thrown_Error n m s \<Rightarrow> n = ''AbortError'' | Thrown_Value v \<Rightarrow> False)"

definition errorDetails :: "thrown \<Rightarrow> jsval" where
  "errorDetails e =
     (case e of
        Thrown_Error n m s \<Rightarrow> (case s of None \<Rightarrow> JUndefined | Some t \<Rightarrow> JStr t)
      | Thrown_Value v \<Rightarrow> JStr (js_String v))"

text \<open>The record pushed for a failed item when the host continues on failure.\<close>

definition error_json :: "thrown \<Rightarrow> nat \<Rightarrow> jsobj" where
  "error_json e itemIndex =
     [(''error'', JStr (errorMessage e)),
      (''errorType'', JStr (if isTimeout e then ''timeout'' else ''execution_error'')),
      (''errorDetails'', errorDetails e),
      (''itemIndex'', JNum (int itemIndex)),
      (''success'', JBool False)]"

record node_operation_error =
  noe_message :: string
  noe_itemIndex :: nat
  noe_description :: string

definition nl :: string where
  "nl = [CHR 0x0A]"

definition translate :: "thrown \<Rightarrow> int \<Rightarrow> nat \<Rightarrow> node_operation_error" where
  "translate e tmo itemIndex =
     (let msg = errorMessage e in
      if isTimeout e then
        \<lparr> noe_message = ''Operation timed out after '' @ show_int tmo
             @ '' seconds. Consider increasing the timeout in Additional Options.'',
          noe_itemIndex = itemIndex, noe_description = msg \<rparr>
      else if str_includes msg ''exited with code 1'' \<or> str_includes msg ''spawn''
              \<or> str_includes msg ''ENOENT'' then
        \<lparr> noe_message = ''Claude Code CLI is not properly installed or configured.'',
          noe_itemIndex = itemIndex,
          noe_description = msg @ nl @ nl @ ''Troubleshooting:'' @ nl
             @ ''1. Install Claude CLI: npm install -g @anthropic-ai/claude-code'' @ nl
             @ ''2. Authenticate: claude auth'' @ nl
             @ ''3. Verify installation: claude --version'' @ nl
             @ ''4. Make sure Claude CLI is in the PATH for the n8n user'' \<rparr>
      else if str_includes msg ''Authentication'' \<or> str_includes msg ''auth'' then
        \<lparr> noe_message = ''Claude Code authentication failed.'',
          noe_itemIndex = itemIndex,
          noe_description = msg @ nl @ nl @ ''Run '' @ [CHR 0x27] @ ''claude auth''
             @ [CHR 0x27] @ '' on your server to authenticate.'' \<rparr>
      else if str_includes msg ''permission'' \<or> str_includes msg ''EACCES'' then
        \<lparr> noe_message = ''Permission denied accessing project path or Claude CLI.'',
          noe_itemIndex = itemIndex,
          noe_description = msg @ nl @ nl @ ''Check:'' @ nl
             @ ''1. Project path exists and is accessible'' @ nl
             @ ''2. n8n user has read/write permissions'' @ nl
             @ ''3. Claude CLI is accessible to n8n user'' \<rparr>
      else
        \<lparr> noe_message = ''Claude Code execution failed: '' @ msg,
          noe_itemIndex = itemIndex, noe_description = msg \<rparr>)"

section \<open>The batch\<close>

record exec_state =
  returnData :: "(jsobj \<times> nat) list"
  armed :: "nat list"

text \<open>
  The \<^verbatim>\<open>for\<close> loop of \<^verbatim>\<open>execute\<close> from \<open>itemIndex\<close> on. \<open>continueOnFail\<close> is the host's
  policy. The loop ends with the error raised to the host (and the state it leaves
  behind) or with the final state, whose \<open>returnData\<close> the node returns.
\<close>

fun exec_items ::
  "sdk \<Rightarrow> bool \<Rightarrow> nat \<Rightarrow> params list \<Rightarrow> exec_state
     \<Rightarrow> (node_operation_error \<times> exec_state) + exec_state" where
  "exec_items query continueOnFail itemIndex [] st = Inr st"
| "exec_items query continueOnFail itemIndex (p # ps) st =
     (case try_item query itemIndex p (armed st) of
        (Inr out, timers) \<Rightarrow>
          exec_items query continueOnFail (Suc itemIndex) ps
            \<lparr> returnData = returnData st
                 @ (case out of None \<Rightarrow> [] | Some json \<Rightarrow> [(json, itemIndex)]),
              armed = timers \<rparr>
      | (Inl e, timers) \<Rightarrow>
          if continueOnFail then
            exec_items query continueOnFail (Suc itemIndex) ps
              \<lparr> returnData = returnData st @ [(error_json e itemIndex, itemIndex)],
                armed = timers \<rparr>
          else
            Inl (translate e (timeout p) itemIndex,
                 \<lparr> returnData = returnData st, armed = timers \<rparr>))"

definition execute ::
  "sdk \<Rightarrow> bool \<Rightarrow> params list \<Rightarrow> (node_operation_error \<times> exec_state) + exec_state" where
  "execute query continueOnFail items =
     exec_items query continueOnFail 0 items \<lparr> returnData = [], armed = [] \<rparr>"

section \<open>Sample inputs\<close>

definition base_params :: params where
  "base_params =
     \<lparr> operation = ''query'', prompt = ''List files'', model = ''sonnet'', maxTurns = 10,
       timeout = 300, projectPath = [], outputFormat = ''structured'', allowedTools = [],
       settingSources = [''user'', ''project'', ''local''],
       additionalOptions =
         \<lparr> systemPrompt = None, requirePermissions = False, debug = False \<rparr> \<rparr>"

text \<open>Records as the SDK emits them, and some it is not expected to emit.\<close>

definition m_init :: jsobj where
  "m_init = [(''type'', JStr ''system''), (''subtype'', JStr ''init''),
             (''tools'', JArr [JStr ''Bash'', JStr ''Read''])]"

definition m_asst :: jsobj where
  "m_asst = [(''type'', JStr ''assistant''),
             (''message'', JObj [(''content'',
                JArr [JObj [(''type'', JStr ''text''), (''text'', JStr ''Listing'')]])])]"

definition r_ok :: jsobj where
  "r_ok = [(''type'', JStr ''result''), (''subtype'', JStr ''success''),
           (''result'', JStr ''done''), (''duration_ms'', JNum 120)]"

definition r_err :: jsobj where
  "r_err = [(''type'', JStr ''result''), (''subtype'', JStr ''error_during_execution''),
            (''result'', JStr []), (''error'', JStr ''e1'')]"

definition r_first :: jsobj where
  "r_first = [(''type'', JStr ''result''), (''subtype'', JStr ''error_max_turns''),
              (''duration_ms'', JNum 50)]"

definition r_last :: jsobj where
  "r_last = [(''type'', JStr ''result''), (''subtype'', JStr ''success''),
             (''result'', JStr ''done''), (''duration_ms'', JNum 120), (''num_turns'', JNum 9)]"

definition r_zero :: jsobj where
  "r_zero = [(''type'', JStr ''result''), (''subtype'', JStr ''success''),
             (''result'', JStr ''done''), (''duration_ms'', JNum 0), (''num_turns'', JNum 3)]"

definition r_null :: jsobj where
  "r_null = [(''type'', JStr ''result''), (''subtype'', JStr ''success''),
             (''result'', JStr ''done''), (''duration_ms'', JNull)]"

section \<open>The specification's reading of the terminal record\<close>

text \<open>
  The specification takes the last result record of the sequence as the terminal record,
  and the text format's \<^verbatim>\<open>result\<close> from the fields that are present on it. These two
  definitions follow its words, for comparison with the formatter.
\<close>

definition spec_terminal :: "jsobj list \<Rightarrow> jsobj option" where
  "spec_terminal messages = find (is_type ''result'') (rev messages)"

definition present :: "jsobj \<Rightarrow> string \<Rightarrow> bool" where
  "present m k = (\<not> nullish (field m k))"

definition spec_text_result :: "jsobj list \<Rightarrow> jsval" where
  "spec_text_result messages =
     (case spec_terminal messages of
        None \<Rightarrow> JStr ''No result available''
      | Some r \<Rightarrow>
          if present r ''result'' then field r ''result''
          else if present r ''error'' then field r ''error''
          else JStr ''No result available'')"

section \<open>Null-valued keys\<close>

text \<open>No key of the object holds \<^verbatim>\<open>null\<close> or \<^verbatim>\<open>undefined\<close>.\<close>

definition no_null_keys :: "jsobj \<Rightarrow> bool" where
  "no_null_keys m = list_all (\<lambda>(k, v). \<not> nullish v) m"

section \<open>The specification's failure categories\<close>

text \<open>
  The categories of the specification and its rules in their order of precedence, the
  first rule that matches deciding; these definitions follow its words, for comparison
  with \<open>translate\<close>.
\<close>

datatype category =
  TimedOut | CliNotInstalled | AuthenticationFailed | PermissionDenied | ExecutionFailed

fun aborted :: "thrown \<Rightarrow> bool" where
  "aborted (Thrown_Error n m s) = (n = ''AbortError'')"
| "aborted (Thrown_Value v) = False"

definition spawn_signature :: "string \<Rightarrow> bool" where
  "spawn_signature msg =
     (str_includes msg ''exited with code 1'' \<or> str_includes msg ''spawn''
      \<or> str_includes msg ''ENOENT'')"

definition auth_signature :: "string \<Rightarrow> bool" where
  "auth_signature msg = (str_includes msg ''Authentication'' \<or> str_includes msg ''auth'')"

definition permission_signature :: "string \<Rightarrow> bool" where
  "permission_signature msg =
     (str_includes msg ''permission'' \<or> str_includes msg ''EACCES'')"

definition spec_rules :: "((thrown \<Rightarrow> bool) \<times> category) list" where
  "spec_rules =
     [(aborted, TimedOut),
      (\<lambda>e. spawn_signature (errorMessage e), CliNotInstalled),
      (\<lambda>e. auth_signature (errorMessage e), AuthenticationFailed),
      (\<lambda>e. permission_signature (errorMessage e), PermissionDenied)]"

definition spec_category :: "thrown \<Rightarrow> category" where
  "spec_category e =
     (case find (\<lambda>rule. fst rule e) spec_rules of
        Some rule \<Rightarrow> snd rule
      | None \<Rightarrow> ExecutionFailed)"

fun category_message :: "category \<Rightarrow> int \<Rightarrow> string \<Rightarrow> string" where
  "category_message TimedOut tmo msg =
     ''Operation timed out after '' @ show_int tmo
       @ '' seconds. Consider increasing the timeout in Additional Options.''"
| "category_message CliNotInstalled tmo msg =
     ''Claude Code CLI is not properly installed or configured.''"
| "category_message AuthenticationFailed tmo msg = ''Claude Code authentication failed.''"
| "category_message PermissionDenied tmo msg =
     ''Permission denied accessing project path or Claude CLI.''"
| "category_message ExecutionFailed tmo msg = ''Claude Code execution failed: '' @ msg"

text \<open>Sample failures and SDK behaviours.\<close>

definition abort_error :: thrown where
  "abort_error = Thrown_Error ''AbortError'' ''spawn was aborted'' None"

definition spawn_error :: thrown where
  "spawn_error =
     Thrown_Error ''Error'' ''spawn claude ENOENT: auth permission''
       (Some ''Error: spawn claude ENOENT: auth permission'')"

definition aborting_sdk :: sdk where
  "aborting_sdk = (\<lambda>call. \<lparr> records = [m_init], failure = Some abort_error \<rparr>)"

definition failing_sdk :: sdk where
  "failing_sdk = (\<lambda>call. \<lparr> records = [], failure = Some spawn_error \<rparr>)"

section \<open>Basic facts\<close>

lemma field_Cons [simp]: "field ((k', v) # m) k = (if k' = k then v else field m k)"
  by (simp add: field_def)

lemma field_Nil [simp]: "field [] k = JUndefined"
  by (simp add: field_def)

lemma field_set_field: "field (set_field m k v) k' = (if k' = k then v else field m k')"
  by (induction m) auto

lemma keys_set_field:
  "keys (set_field m k v) = (if k \<in> set (keys m) then keys m else keys m @ [k])"
  by (induction m) (force simp: keys_def)+

lemmas samples_def = m_init_def m_asst_def r_ok_def r_err_def r_null_def

lemma find_result_none:
  "\<forall>m\<in>set pre. \<not> is_type ''result'' m \<Longrightarrow> find_result pre = None"
  by (induction pre) (auto simp: find_result_def)

lemma find_result_first:
  "\<forall>m\<in>set pre. \<not> is_type ''result'' m \<Longrightarrow> is_type ''result'' r
     \<Longrightarrow> find_result (pre @ r # post) = Some r"
  by (induction pre) (auto simp: find_result_def)

lemma text_success:
  "field (format_text messages) ''success''
     = JBool (opt_field (find_result messages) ''subtype'' = JStr ''success'')"
  by (simp add: format_text_def Let_def field_set_field)

lemma structured_success:
  "field (format_structured dbg messages) ''success''
     = JBool (opt_field (find_result messages) ''subtype'' = JStr ''success'')"
  by (simp add: format_structured_def Let_def field_set_field split: option.split)

section \<open>Query Invoker\<close>

text \<open>
  C1, as amended. An empty \<^verbatim>\<open>settingSources\<close> selection leaves the options object without
  a \<^verbatim>\<open>settingSources\<close> key: the node passes the selection on only when it is non-empty,
  and then unchanged. The empty selection is the same call as the omitted key.
\<close>

theorem settingSources_passed_iff_nonempty:
  "opt_settingSources (build_options p) =
     (if settingSources p = [] then None else Some (settingSources p))"
  by (simp add: build_options_def Let_def split: option.split)

theorem settingSources_passed_iff_nonempty_witness:
  "opt_settingSources (build_options (base_params\<lparr>settingSources := []\<rparr>)) = None
   \<and> opt_settingSources (build_options base_params) = Some [''user'', ''project'', ''local'']"
  using settingSources_passed_iff_nonempty [of "base_params\<lparr>settingSources := []\<rparr>"]
        settingSources_passed_iff_nonempty [of base_params]
  by (simp add: base_params_def)

text \<open>
  C1 as stated fails: for the empty selection the key is not an explicit empty list, it
  is absent.
\<close>

theorem settingSources_empty_counterexample:
  "opt_settingSources (build_options (base_params\<lparr>settingSources := []\<rparr>)) \<noteq> Some []
   \<and> opt_settingSources (build_options (base_params\<lparr>settingSources := []\<rparr>)) = None"
  by (simp add: build_options_def Let_def base_params_def)

section \<open>The timer of an item\<close>

text \<open>
  C2 at a blank prompt. The timer is armed before the prompt is validated, and the
  validation error leaves the outer \<^verbatim>\<open>try\<close> without passing a \<^verbatim>\<open>clearTimeout\<close>: with the
  host continuing on failure, the batch of a blank-prompt item and a good item ends with
  the first item's timer still armed, whatever the SDK does.
\<close>

theorem blank_prompt_leaves_timer_armed:
  "\<exists>st. execute query True [base_params\<lparr>prompt := ''   ''\<rparr>, base_params] = Inr st
        \<and> armed st = [0] \<and> map snd (returnData st) = [0, 1]"
  by (simp add: execute_def try_item_def Let_def base_params_def trim_def is_space_def
        setTimeout_def clearTimeout_def format_output_def
      split: option.split)

text \<open>
  Past the prompt validation every exit of the item clears its timer: the drained
  sequence, a throw from the SDK and a throw from the progress tracking alike.
\<close>

lemma timer_cleared_after_validation:
  "\<not> (prompt p = [] \<or> trim (prompt p) = [])
     \<Longrightarrow> i \<notin> set (snd (try_item query i p timers))"
  by (simp add: try_item_def Let_def setTimeout_def clearTimeout_def split: option.split)

section \<open>The success flag\<close>

text \<open>
  C3, as amended. The text and the structured format report \<^verbatim>\<open>success = true\<close> exactly
  when the first result record of the sequence has the subtype \<^verbatim>\<open>success\<close> (which is the
  terminal record when the sequence has one result record, at its end), and
  \<^verbatim>\<open>success = false\<close> when that record has another subtype or the sequence has no result
  record. The messages format has no \<^verbatim>\<open>success\<close> key.
\<close>

theorem success_of_first_result:
  "\<forall>m\<in>set pre. \<not> is_type ''result'' m \<Longrightarrow>
     field (format_text pre) ''success'' = JBool False
   \<and> field (format_structured dbg pre) ''success'' = JBool False
   \<and> (is_type ''result'' r \<longrightarrow>
        field (format_text (pre @ r # post)) ''success''
          = JBool (field r ''subtype'' = JStr ''success'')
      \<and> field (format_structured dbg (pre @ r # post)) ''success''
          = JBool (field r ''subtype'' = JStr ''success''))
   \<and> ''success'' \<notin> set (keys (format_messages messages))"
  by (simp add: text_success structured_success find_result_none find_result_first
        format_messages_def keys_def)

theorem success_of_first_result_witness:
  "field (format_text [m_init, m_asst]) ''success'' = JBool False
   \<and> field (format_structured False [m_init, m_asst]) ''success'' = JBool False
   \<and> field (format_text ([m_init, m_asst] @ r_ok # [])) ''success'' = JBool True
   \<and> field (format_structured False ([m_init, m_asst] @ r_ok # [])) ''success'' = JBool True
   \<and> field (format_text ([m_init, m_asst] @ r_err # [r_ok])) ''success'' = JBool False"
  using success_of_first_result [of "[m_init, m_asst]" False r_ok "[]"]
        success_of_first_result [of "[m_init, m_asst]" False r_err "[r_ok]"]
  by (simp add: is_type_def samples_def)

text \<open>
  C3 as stated fails on a sequence that ends in a successful result record after an
  earlier result record: no format reports \<^verbatim>\<open>success = true\<close> (and the messages format
  reports no \<^verbatim>\<open>success\<close> at all).
\<close>

theorem success_counterexample:
  "is_type ''result'' (last [r_err, r_ok])
   \<and> field (last [r_err, r_ok]) ''subtype'' = JStr ''success''
   \<and> field (format_text [r_err, r_ok]) ''success'' = JBool False
   \<and> field (format_structured False [r_err, r_ok]) ''success'' = JBool False
   \<and> field (format_messages [r_err, r_ok]) ''success'' = JUndefined
   \<and> field (format_messages [r_ok]) ''success'' = JUndefined"
  by (simp add: text_success structured_success find_result_def is_type_def samples_def
        format_messages_def)

lemma find_result_single: "is_type ''result'' r \<Longrightarrow> find_result [r] = Some r"
  by (simp add: find_result_def)

lemma text_result:
  "field (format_text messages) ''result'' =
     JStr (js_String (js_or (js_or (opt_field (find_result messages) ''result'')
                                   (opt_field (find_result messages) ''error''))
                            (JStr ''No result available'')))"
  by (simp add: format_text_def Let_def field_set_field)

lemma text_depends_on_result:
  "find_result a = find_result b \<Longrightarrow> format_text a = format_text b"
  by (simp add: format_text_def)

lemma structured_result:
  "field (format_structured dbg messages) ''result'' =
     (if truthy (opt_field (find_result messages) ''result'')
      then opt_field (find_result messages) ''result'' else JUndefined)"
  by (simp add: format_structured_def Let_def field_set_field split: option.split)

lemma structured_error:
  "field (format_structured dbg messages) ''error'' =
     (if truthy (opt_field (find_result messages) ''result'') then JUndefined
      else if truthy (opt_field (find_result messages) ''error'')
      then opt_field (find_result messages) ''error'' else JUndefined)"
  by (simp add: format_structured_def Let_def field_set_field split: option.split)

lemma structured_metrics:
  "field (format_structured dbg messages) ''metrics'' =
     (case find_result messages of
        Some r \<Rightarrow>
          if field r ''duration_ms'' \<noteq> JUndefined then JObj (metrics_block r) else JUndefined
      | None \<Rightarrow> JUndefined)"
  by (simp add: format_structured_def Let_def field_set_field split: option.split)

lemma structured_depends_on_result:
  "find_result a = find_result b
     \<Longrightarrow> k \<in> {''success'', ''result'', ''error'', ''metrics''}
     \<Longrightarrow> field (format_structured dbg a) k = field (format_structured dbg b) k"
  by (auto simp only: structured_success structured_result structured_error
        structured_metrics insert_iff empty_iff)

section \<open>The text format's result\<close>

text \<open>
  C4, as amended. The text format's \<^verbatim>\<open>result\<close> is the string conversion of the first
  result record's \<^verbatim>\<open>result\<close> field when that field is truthy, otherwise of its \<^verbatim>\<open>error\<close>
  field when that is truthy, otherwise the literal \<^verbatim>\<open>No result available\<close>; the literal
  is also the value when the sequence has no result record. A field that is present but
  falsy (the empty string) counts as absent.
\<close>

theorem text_result_fallback:
  "\<forall>m\<in>set pre. \<not> is_type ''result'' m \<Longrightarrow>
     field (format_text pre) ''result'' = JStr ''No result available''
   \<and> (is_type ''result'' r \<longrightarrow>
        field (format_text (pre @ r # post)) ''result'' =
          JStr (js_String
            (if truthy (field r ''result'') then field r ''result''
             else if truthy (field r ''error'') then field r ''error''
             else JStr ''No result available'')))"
  by (simp add: text_result find_result_none find_result_first js_or_def)

theorem text_result_fallback_witness:
  "field (format_text [m_init, m_asst]) ''result'' = JStr ''No result available''
   \<and> field (format_text ([m_init, m_asst] @ r_ok # [])) ''result'' = JStr ''done''
   \<and> field (format_text ([m_init] @ r_err # [r_ok])) ''result'' = JStr ''e1''"
  using text_result_fallback [of "[m_init, m_asst]" r_ok "[]"]
        text_result_fallback [of "[m_init]" r_err "[r_ok]"]
  by (simp add: is_type_def samples_def)

text \<open>
  C4 as stated fails on a sequence of two result records, the first with an empty
  \<^verbatim>\<open>result\<close> and an \<^verbatim>\<open>error\<close>: the text is the first record's \<^verbatim>\<open>error\<close>, neither the
  terminal record's \<^verbatim>\<open>result\<close> nor the first record's own (present, empty) \<^verbatim>\<open>result\<close>.
\<close>

theorem text_result_counterexample:
  "field (format_text [r_err, r_ok]) ''result'' = JStr ''e1''
   \<and> spec_text_result [r_err, r_ok] = JStr ''done''
   \<and> present r_err ''result'' \<and> field r_err ''result'' = JStr ''''"
  by (simp add: text_result find_result_def spec_text_result_def spec_terminal_def
        present_def nullish_def is_type_def js_or_def samples_def)

section \<open>The result record the formatters use\<close>

text \<open>
  C5, as amended. The record the formatters use for success, result or error text and
  metrics is the first result record of the sequence: whatever follows it, another result
  record included, has no influence on the text output or on the \<^verbatim>\<open>success\<close>, \<^verbatim>\<open>result\<close>,
  \<^verbatim>\<open>error\<close> and \<^verbatim>\<open>metrics\<close> keys of the structured output. When the sequence has exactly
  one result record, it is that record.
\<close>

theorem first_result_is_used:
  "\<forall>m\<in>set pre. \<not> is_type ''result'' m \<Longrightarrow> is_type ''result'' r \<Longrightarrow>
     find_result (pre @ r # post) = Some r
   \<and> format_text (pre @ r # post) = format_text [r]
   \<and> (k \<in> {''success'', ''result'', ''error'', ''metrics''} \<longrightarrow>
        field (format_structured dbg (pre @ r # post)) k
          = field (format_structured dbg [r]) k)"
proof -
  assume pre: "\<forall>m\<in>set pre. \<not> is_type ''result'' m" and r: "is_type ''result'' r"
  have same: "find_result (pre @ r # post) = find_result [r]"
    using pre r by (simp add: find_result_first find_result_single)
  have "find_result (pre @ r # post) = Some r"
    using pre r by (rule find_result_first)
  moreover have "format_text (pre @ r # post) = format_text [r]"
    using same by (rule text_depends_on_result)
  moreover have "k \<in> {''success'', ''result'', ''error'', ''metrics''} \<longrightarrow>
        field (format_structured dbg (pre @ r # post)) k
          = field (format_structured dbg [r]) k"
    using structured_depends_on_result [OF same] by blast
  ultimately show ?thesis by blast
qed

theorem first_result_is_used_witness:
  "find_result ([m_init, m_asst] @ r_err # [r_ok]) = Some r_err
   \<and> format_text ([m_init, m_asst] @ r_err # [r_ok]) = format_text [r_err]
   \<and> field (format_structured True ([m_init, m_asst] @ r_err # [r_ok])) ''error''
       = field (format_structured True [r_err]) ''error''"
  using first_result_is_used [of "[m_init, m_asst]" r_err "[r_ok]" "''error''" True]
  by (simp add: is_type_def samples_def)

text \<open>
  C5 as stated fails on a sequence with two result records: the formatters use the
  first, not the last.
\<close>

theorem last_result_counterexample:
  "find_result [r_err, r_ok] = Some r_err
   \<and> spec_terminal [r_err, r_ok] = Some r_ok
   \<and> r_err \<noteq> r_ok
   \<and> field (format_text [r_err, r_ok]) ''success'' = JBool False
   \<and> field r_ok ''subtype'' = JStr ''success''"
  by (simp add: text_success find_result_def spec_terminal_def is_type_def samples_def)

section \<open>The messages format\<close>

lemma cleanMsg_keys:
  "keys (cleanMsg msg) =
     ''type'' # filter (\<lambda>k. truthy (field msg k)) [''message'', ''result'', ''error'', ''subtype'']"
  by (simp add: cleanMsg_def Let_def keys_def)

lemma cleanMsg_field:
  "k \<in> set (keys (cleanMsg msg)) \<Longrightarrow> field (cleanMsg msg) k = field msg k"
  by (auto simp: cleanMsg_def Let_def keys_def split: if_splits)

text \<open>
  C6, as amended. The messages format's \<^verbatim>\<open>messageCount\<close> is the number of records
  consumed; its \<^verbatim>\<open>messages\<close> array has one summary per record, in the order of emission;
  and the summary of a record has the key \<^verbatim>\<open>type\<close> followed by those of \<^verbatim>\<open>message\<close>,
  \<^verbatim>\<open>result\<close>, \<^verbatim>\<open>error\<close>, \<^verbatim>\<open>subtype\<close> whose value on the record is truthy, each with the
  record's value, and no other key.
\<close>

theorem messages_format_summaries:
  "field (format_messages messages) ''messageCount'' = JNum (int (length messages))
   \<and> (\<exists>summaries.
        field (format_messages messages) ''messages'' = JArr summaries
      \<and> length summaries = length messages
      \<and> (\<forall>i < length messages. \<exists>s.
            summaries ! i = JObj s
          \<and> keys s = ''type'' # filter (\<lambda>k. truthy (field (messages ! i) k))
                                    [''message'', ''result'', ''error'', ''subtype'']
          \<and> (\<forall>k \<in> set (keys s). field s k = field (messages ! i) k)))"
  by (simp add: format_messages_def cleanMsg_keys cleanMsg_field)

theorem messages_format_summaries_witness:
  "field (format_messages [m_init, r_ok]) ''messageCount'' = JNum 2
   \<and> field (format_messages [m_init, r_ok]) ''messages'' =
       JArr [JObj [(''type'', JStr ''system''), (''subtype'', JStr ''init'')],
             JObj [(''type'', JStr ''result''), (''result'', JStr ''done''),
                   (''subtype'', JStr ''success'')]]"
  using messages_format_summaries [of "[m_init, r_ok]"]
  by (simp add: format_messages_def cleanMsg_def samples_def)

text \<open>
  C6 as stated fails on a record whose \<^verbatim>\<open>result\<close> is present and empty: the summary
  drops the key.
\<close>

theorem messages_summary_counterexample:
  "''result'' \<in> set (keys r_err) \<and> present r_err ''result''
   \<and> keys (cleanMsg r_err) = [''type'', ''error'', ''subtype'']
   \<and> field (format_messages [r_err]) ''messages'' =
       JArr [JObj [(''type'', JStr ''result''), (''error'', JStr ''e1''),
                   (''subtype'', JStr ''error_during_execution'')]]"
  by (simp add: format_messages_def cleanMsg_def keys_def present_def nullish_def samples_def)

section \<open>Null-valued keys of the output\<close>

lemma nullish_simps:
  "nullish JUndefined" "nullish JNull" "\<not> nullish (JBool b)" "\<not> nullish (JNum n)"
  "\<not> nullish (JStr s)" "\<not> nullish (JArr vs)" "\<not> nullish (JObj m)"
  by (simp_all add: nullish_def)

lemma truthy_not_nullish: "truthy v \<Longrightarrow> \<not> nullish v"
  by (cases v) (simp_all add: nullish_def)

lemma no_null_set_field:
  "no_null_keys m \<Longrightarrow> \<not> nullish v \<Longrightarrow> no_null_keys (set_field m k v)"
  by (induction m) (auto simp: no_null_keys_def)

lemma no_null_Cons:
  "no_null_keys ((k, v) # m) = (\<not> nullish v \<and> no_null_keys m)"
  by (simp add: no_null_keys_def)

lemma no_null_Nil: "no_null_keys []"
  by (simp add: no_null_keys_def)

lemma no_null_structured: "no_null_keys (format_structured dbg messages)"
  by (simp add: format_structured_def Let_def no_null_set_field no_null_Cons no_null_Nil
        truthy_not_nullish nullish_simps split: option.split)

text \<open>
  C7 on a result record whose \<^verbatim>\<open>duration_ms\<close> is \<^verbatim>\<open>null\<close>. The text format adds its
  metric keys under a test against \<^verbatim>\<open>undefined\<close> only, so the \<^verbatim>\<open>null\<close> is copied into
  the output record: the key \<^verbatim>\<open>duration_ms\<close> is present with the value \<^verbatim>\<open>null\<close>, which
  the claim (and the comment on that test, "avoid null values") excludes. The structured
  format, on the same record, puts \<open>0\<close> in its place, and no key of a structured output
  record is ever \<^verbatim>\<open>null\<close> or \<^verbatim>\<open>undefined\<close>.
\<close>

theorem null_duration_reaches_text_output:
  "format_output ''text'' dbg [r_null] =
     Some [(''result'', JStr ''done''), (''success'', JBool True), (''duration_ms'', JNull)]
   \<and> \<not> no_null_keys
         [(''result'', JStr ''done''), (''success'', JBool True), (''duration_ms'', JNull)]
   \<and> field (format_structured dbg [r_null]) ''metrics'' =
       JObj [(''duration_ms'', JNum 0), (''num_turns'', JNum 0),
             (''total_cost_usd'', JNum 0), (''usage'', JObj [])]
   \<and> no_null_keys (format_structured dbg messages)"
proof -
  have res: "find_result [r_null] = Some r_null"
    by (simp add: find_result_def is_type_def r_null_def)
  have textual: "format_output ''text'' dbg [r_null] =
     Some [(''result'', JStr ''done''), (''success'', JBool True), (''duration_ms'', JNull)]"
    by (simp add: format_output_def format_text_def res Let_def)
       (simp add: r_null_def js_or_def)
  have bad: "\<not> no_null_keys
         [(''result'', JStr ''done''), (''success'', JBool True), (''duration_ms'', JNull)]"
    by (simp add: no_null_Cons nullish_simps)
  have str: "field (format_structured dbg [r_null]) ''metrics'' =
       JObj [(''duration_ms'', JNum 0), (''num_turns'', JNum 0),
             (''total_cost_usd'', JNum 0), (''usage'', JObj [])]"
    by (simp add: structured_metrics res) (simp add: metrics_block_def js_or_def r_null_def)
  from textual bad str no_null_structured show ?thesis by blast
qed

section \<open>The metrics block\<close>

lemma structured_keys:
  "keys (format_structured dbg messages) =
     [''summary'', ''success'']
     @ (if truthy (opt_field (find_result messages) ''result'') then [''result'']
        else if truthy (opt_field (find_result messages) ''error'') then [''error'']
        else [])
     @ (case find_result messages of
          Some r \<Rightarrow> if field r ''duration_ms'' \<noteq> JUndefined then [''metrics''] else []
        | None \<Rightarrow> [])
     @ (if dbg then [''messages''] else [])"
  by (simp add: format_structured_def Let_def keys_def split: option.split)

lemma metrics_key_iff:
  "''metrics'' \<in> set (keys (format_structured dbg messages)) \<longleftrightarrow>
     (\<exists>r. find_result messages = Some r \<and> field r ''duration_ms'' \<noteq> JUndefined)"
  by (cases "find_result messages") (simp_all add: structured_keys)

text \<open>
  C10, as amended. The structured output has a \<^verbatim>\<open>metrics\<close> key exactly when the sequence
  has a result record and the first one has a \<^verbatim>\<open>duration_ms\<close> other than \<^verbatim>\<open>undefined\<close>
  (zero and \<^verbatim>\<open>null\<close> included). The block under the key then has the four keys
  \<^verbatim>\<open>duration_ms\<close>, \<^verbatim>\<open>num_turns\<close>, \<^verbatim>\<open>total_cost_usd\<close> and \<^verbatim>\<open>usage\<close>, in this order and no
  other: each holds the value of that first result record when it is truthy, and
  otherwise \<open>0\<close>, \<open>0\<close>, \<open>0\<close> and the empty object. The first result record is the terminal
  one when the sequence has a single result record.
\<close>

theorem metrics_block_of_first_result:
  "\<forall>m\<in>set pre. \<not> is_type ''result'' m \<Longrightarrow>
     ''metrics'' \<notin> set (keys (format_structured dbg pre))
   \<and> (is_type ''result'' r \<longrightarrow>
        (''metrics'' \<in> set (keys (format_structured dbg (pre @ r # post)))
           \<longleftrightarrow> field r ''duration_ms'' \<noteq> JUndefined)
      \<and> (field r ''duration_ms'' \<noteq> JUndefined \<longrightarrow>
           field (format_structured dbg (pre @ r # post)) ''metrics'' =
             JObj [(''duration_ms'',
                      if truthy (field r ''duration_ms'') then field r ''duration_ms''
                      else JNum 0),
                   (''num_turns'',
                      if truthy (field r ''num_turns'') then field r ''num_turns''
                      else JNum 0),
                   (''total_cost_usd'',
                      if truthy (field r ''total_cost_usd'') then field r ''total_cost_usd''
                      else JNum 0),
                   (''usage'',
                      if truthy (field r ''usage'') then field r ''usage''
                      else JObj [])]))"
proof -
  assume pre: "\<forall>m\<in>set pre. \<not> is_type ''result'' m"
  have none: "''metrics'' \<notin> set (keys (format_structured dbg pre))"
    using find_result_none [OF pre] by (simp add: metrics_key_iff)
  have some: "(''metrics'' \<in> set (keys (format_structured dbg (pre @ r # post)))
           \<longleftrightarrow> field r ''duration_ms'' \<noteq> JUndefined)
      \<and> (field r ''duration_ms'' \<noteq> JUndefined \<longrightarrow>
           field (format_structured dbg (pre @ r # post)) ''metrics'' =
             JObj [(''duration_ms'',
                      if truthy (field r ''duration_ms'') then field r ''duration_ms''
                      else JNum 0),
                   (''num_turns'',
                      if truthy (field r ''num_turns'') then field r ''num_turns''
                      else JNum 0),
                   (''total_cost_usd'',
                      if truthy (field r ''total_cost_usd'') then field r ''total_cost_usd''
                      else JNum 0),
                   (''usage'',
                      if truthy (field r ''usage'') then field r ''usage''
                      else JObj [])])"
    if r: "is_type ''result'' r"
    using find_result_first [OF pre r, of post]
    by (simp add: metrics_key_iff structured_metrics metrics_block_def js_or_def)
  from none some show ?thesis by blast
qed

theorem metrics_block_of_first_result_witness:
  "''metrics'' \<notin> set (keys (format_structured False [m_init, m_asst]))
   \<and> field (format_structured False ([m_init, m_asst] @ r_ok # [])) ''metrics'' =
       JObj [(''duration_ms'', JNum 120), (''num_turns'', JNum 0),
             (''total_cost_usd'', JNum 0), (''usage'', JObj [])]
   \<and> ''metrics'' \<in> set (keys (format_structured False ([m_init] @ r_zero # [])))
   \<and> field (format_structured False ([m_init] @ r_zero # [])) ''metrics'' =
       JObj [(''duration_ms'', JNum 0), (''num_turns'', JNum 3),
             (''total_cost_usd'', JNum 0), (''usage'', JObj [])]
   \<and> ''metrics'' \<notin> set (keys (format_structured False ([m_init] @ r_err # [r_ok])))"
proof -
  have p2: "\<forall>m\<in>set [m_init, m_asst]. \<not> is_type ''result'' m"
    by (simp add: is_type_def samples_def)
  have p1: "\<forall>m\<in>set [m_init]. \<not> is_type ''result'' m"
    by (simp add: is_type_def samples_def)
  have a: "''metrics'' \<notin> set (keys (format_structured False [m_init, m_asst]))"
    using metrics_block_of_first_result [OF p2, of False r_ok "[]"] by blast
  have b: "field (format_structured False ([m_init, m_asst] @ r_ok # [])) ''metrics'' =
       JObj [(''duration_ms'', JNum 120), (''num_turns'', JNum 0),
             (''total_cost_usd'', JNum 0), (''usage'', JObj [])]"
    using metrics_block_of_first_result [OF p2, of False r_ok "[]"]
    by (simp add: is_type_def r_ok_def)
  have c: "''metrics'' \<in> set (keys (format_structured False ([m_init] @ r_zero # [])))
     \<and> field (format_structured False ([m_init] @ r_zero # [])) ''metrics'' =
       JObj [(''duration_ms'', JNum 0), (''num_turns'', JNum 3),
             (''total_cost_usd'', JNum 0), (''usage'', JObj [])]"
    using metrics_block_of_first_result [OF p1, of False r_zero "[]"]
    by (simp add: is_type_def r_zero_def)
  have d: "''metrics'' \<notin> set (keys (format_structured False ([m_init] @ r_err # [r_ok])))"
    using metrics_block_of_first_result [OF p1, of False r_err "[r_ok]"]
    by (simp add: is_type_def r_err_def)
  from a b c d show ?thesis by blast
qed

text \<open>
  C10 as stated, of the terminal record, fails on sequences with two result records.
  On the first, the terminal record has a \<^verbatim>\<open>duration_ms\<close> and the output has no
  \<^verbatim>\<open>metrics\<close> block; on the second, the block reports \<^verbatim>\<open>num_turns\<close> \<open>0\<close> and the first
  record's duration although the terminal record has \<^verbatim>\<open>num_turns\<close> \<open>9\<close>.
\<close>

theorem terminal_metrics_counterexample:
  "spec_terminal [r_err, r_ok] = Some r_ok
   \<and> field r_ok ''duration_ms'' = JNum 120
   \<and> field (format_structured False [r_err, r_ok]) ''metrics'' = JUndefined
   \<and> spec_terminal [r_first, r_last] = Some r_last
   \<and> field r_last ''num_turns'' = JNum 9
   \<and> field (format_structured False [r_first, r_last]) ''metrics'' =
       JObj [(''duration_ms'', JNum 50), (''num_turns'', JNum 0),
             (''total_cost_usd'', JNum 0), (''usage'', JObj [])]"
proof -
  have f1: "find_result [r_err, r_ok] = Some r_err"
    by (simp add: find_result_def is_type_def r_err_def)
  have f2: "find_result [r_first, r_last] = Some r_first"
    by (simp add: find_result_def is_type_def r_first_def)
  have m1: "field (format_structured False [r_err, r_ok]) ''metrics'' = JUndefined"
    by (simp add: structured_metrics f1) (simp add: r_err_def)
  have m2: "field (format_structured False [r_first, r_last]) ''metrics'' =
       JObj [(''duration_ms'', JNum 50), (''num_turns'', JNum 0),
             (''total_cost_usd'', JNum 0), (''usage'', JObj [])]"
    by (simp add: structured_metrics f2) (simp add: metrics_block_def js_or_def r_first_def)
  have s: "spec_terminal [r_err, r_ok] = Some r_ok"
       "spec_terminal [r_first, r_last] = Some r_last"
       "field r_ok ''duration_ms'' = JNum 120" "field r_last ''num_turns'' = JNum 9"
    by (simp_all add: spec_terminal_def is_type_def r_ok_def r_last_def)
  from s m1 m2 show ?thesis by blast
qed

section \<open>Failure Translator\<close>

lemma isTimeout_aborted: "isTimeout e = aborted e"
  by (cases e) (simp_all add: isTimeout_def)

lemma category_message_inj:
  "category_message c t m = category_message c' t' m' \<Longrightarrow> c = c'"
  by (cases c; cases c') simp_all

text \<open>
  C8. The message of the error that \<open>translate\<close> raises is the message of the
  specification's category, chosen by its rules in their order: cancellation first, then
  the spawn signatures, then the authentication text, then the permission text, then the
  generic message with the original text. The messages of different categories differ, so
  each error gets exactly one category; and cancellation is decided by the error being an
  \<^verbatim>\<open>AbortError\<close>, whatever its message says.
\<close>

theorem translate_follows_precedence:
  "noe_message (translate e tmo i) = category_message (spec_category e) tmo (errorMessage e)
   \<and> (\<forall>c. noe_message (translate e tmo i) = category_message c tmo (errorMessage e)
          \<longrightarrow> c = spec_category e)
   \<and> (spec_category e = TimedOut \<longleftrightarrow> (\<exists>m s. e = Thrown_Error ''AbortError'' m s))
   \<and> (\<not> aborted e \<longrightarrow>
        (spawn_signature (errorMessage e) \<longrightarrow> spec_category e = CliNotInstalled)
      \<and> (\<not> spawn_signature (errorMessage e) \<longrightarrow>
           (auth_signature (errorMessage e) \<longrightarrow> spec_category e = AuthenticationFailed)
         \<and> (\<not> auth_signature (errorMessage e) \<longrightarrow>
              (permission_signature (errorMessage e) \<longrightarrow> spec_category e = PermissionDenied)
            \<and> (\<not> permission_signature (errorMessage e) \<longrightarrow>
                 spec_category e = ExecutionFailed))))"
proof -
  have msg: "noe_message (translate e tmo i)
      = category_message (spec_category e) tmo (errorMessage e)"
    by (simp add: translate_def Let_def spec_category_def spec_rules_def isTimeout_aborted
          spawn_signature_def auth_signature_def permission_signature_def)
  have one: "\<forall>c. noe_message (translate e tmo i) = category_message c tmo (errorMessage e)
          \<longrightarrow> c = spec_category e"
    unfolding msg using category_message_inj by blast
  have tmo: "spec_category e = TimedOut \<longleftrightarrow> (\<exists>m s. e = Thrown_Error ''AbortError'' m s)"
    by (cases e) (auto simp: spec_category_def spec_rules_def)
  have rest: "\<not> aborted e \<longrightarrow>
        (spawn_signature (errorMessage e) \<longrightarrow> spec_category e = CliNotInstalled)
      \<and> (\<not> spawn_signature (errorMessage e) \<longrightarrow>
           (auth_signature (errorMessage e) \<longrightarrow> spec_category e = AuthenticationFailed)
         \<and> (\<not> auth_signature (errorMessage e) \<longrightarrow>
              (permission_signature (errorMessage e) \<longrightarrow> spec_category e = PermissionDenied)
            \<and> (\<not> permission_signature (errorMessage e) \<longrightarrow>
                 spec_category e = ExecutionFailed)))"
    by (simp add: spec_category_def spec_rules_def)
  from msg one tmo rest show ?thesis by blast
qed

theorem translate_follows_precedence_witness:
  "noe_message (translate abort_error 300 0) =
     ''Operation timed out after 300 seconds. Consider increasing the timeout in Additional Options.''
   \<and> noe_message (translate spawn_error 300 0) =
     ''Claude Code CLI is not properly installed or configured.''
   \<and> spec_category spawn_error = CliNotInstalled
   \<and> noe_message (translate prompt_required 300 0) =
     ''Claude Code execution failed: Prompt is required and cannot be empty''"
proof -
  have a: "spec_category abort_error = TimedOut"
    by (simp add: spec_category_def spec_rules_def abort_error_def)
  have s: "spec_category spawn_error = CliNotInstalled"
    by (simp add: spec_category_def spec_rules_def spawn_error_def errorMessage_def
          spawn_signature_def)
  have p: "spec_category prompt_required = ExecutionFailed"
    by (simp add: spec_category_def spec_rules_def prompt_required_def new_error_def
          errorMessage_def spawn_signature_def auth_signature_def permission_signature_def)
  have d: "show_int 300 = ''300''"
    by code_simp
  have w1: "noe_message (translate abort_error 300 0) =
     ''Operation timed out after 300 seconds. Consider increasing the timeout in Additional Options.''"
    using translate_follows_precedence [of abort_error 300 0]
    by (simp only: a category_message.simps d append.simps)
  have w2: "noe_message (translate spawn_error 300 0) =
     ''Claude Code CLI is not properly installed or configured.''"
    using translate_follows_precedence [of spawn_error 300 0]
    by (simp only: s category_message.simps)
  have w3: "noe_message (translate prompt_required 300 0) =
     ''Claude Code execution failed: Prompt is required and cannot be empty''"
    using translate_follows_precedence [of prompt_required 300 0]
    by (simp only: p category_message.simps)
       (simp add: prompt_required_def new_error_def errorMessage_def)
  from w1 w2 s w3 show ?thesis by blast
qed

section \<open>The host's continue-on-failure policy\<close>

lemma exec_items_continue:
  "\<exists>st'. exec_items query True i ps st = Inr st'
        \<and> (\<exists>more. returnData st' = returnData st @ more)"
proof (induction ps arbitrary: i st)
  case Nil
  show ?case by simp
next
  case (Cons p ps)
  obtain res ts where t: "try_item query i p (armed st) = (res, ts)"
    by (cases "try_item query i p (armed st)")
  show ?case
  proof (cases res)
    case (Inl e)
    from Cons.IH [of "Suc i" "\<lparr>returnData = returnData st @ [(error_json e i, i)], armed = ts\<rparr>"]
    show ?thesis using t Inl by auto
  next
    case (Inr out)
    from Cons.IH [of "Suc i"
        "\<lparr>returnData = returnData st @ (case out of None \<Rightarrow> [] | Some json \<Rightarrow> [(json, i)]),
          armed = ts\<rparr>"]
    show ?thesis using t Inr by auto
  qed
qed

text \<open>
  C9. When the item at index \<open>i\<close> fails with the thrown value \<open>e\<close> and the host
  continues on failure, the loop pushes one record for the item, goes on with the next
  item and ends without raising, the record being part of what it returns. The record has
  the keys \<^verbatim>\<open>error\<close>, \<^verbatim>\<open>errorType\<close>, \<^verbatim>\<open>errorDetails\<close>, \<^verbatim>\<open>itemIndex\<close> and \<^verbatim>\<open>success\<close>; for
  an \<^verbatim>\<open>Error\<close> with name \<open>n\<close>, message \<open>m\<close> and stack \<open>s\<close> it holds \<open>m\<close> under
  \<^verbatim>\<open>error\<close>, \<^verbatim>\<open>timeout\<close> under \<^verbatim>\<open>errorType\<close> exactly when \<open>n\<close> is \<^verbatim>\<open>AbortError\<close> and
  \<^verbatim>\<open>execution_error\<close> otherwise, and the stack under \<^verbatim>\<open>errorDetails\<close>; \<^verbatim>\<open>success\<close> is
  \<^verbatim>\<open>false\<close>. When the host does not continue, the loop raises at once, for the item's
  index, the error of the category the specification's rules give to \<open>n\<close> and \<open>m\<close>, with
  \<open>m\<close> at the head of its description: the result does not depend on the remaining
  items, and nothing is pushed after the failure.
\<close>

theorem continue_on_fail_policy:
  assumes "try_item query i p (armed st) = (Inl e, ts)"
  shows "exec_items query True i (p # ps) st =
           exec_items query True (Suc i) ps
             \<lparr> returnData = returnData st @ [(error_json e i, i)], armed = ts \<rparr>
       \<and> (\<exists>st'. exec_items query True i (p # ps) st = Inr st'
                \<and> (error_json e i, i) \<in> set (returnData st'))
       \<and> keys (error_json e i)
            = [''error'', ''errorType'', ''errorDetails'', ''itemIndex'', ''success'']
       \<and> field (error_json e i) ''itemIndex'' = JNum (int i)
       \<and> field (error_json e i) ''success'' = JBool False
       \<and> (\<forall>n m s. e = Thrown_Error n m s \<longrightarrow>
             field (error_json e i) ''error'' = JStr m
           \<and> field (error_json e i) ''errorType''
               = JStr (if n = ''AbortError'' then ''timeout'' else ''execution_error'')
           \<and> field (error_json e i) ''errorDetails''
               = (case s of None \<Rightarrow> JUndefined | Some t \<Rightarrow> JStr t))
       \<and> (\<forall>v. e = Thrown_Value v \<longrightarrow>
             field (error_json e i) ''error'' = JStr ''An unknown error occurred''
           \<and> field (error_json e i) ''errorType'' = JStr ''execution_error''
           \<and> field (error_json e i) ''errorDetails'' = JStr (js_String v))
       \<and> exec_items query False i (p # ps) st =
           Inl (translate e (timeout p) i, \<lparr> returnData = returnData st, armed = ts \<rparr>)
       \<and> noe_itemIndex (translate e (timeout p) i) = i
       \<and> (\<forall>n m s. e = Thrown_Error n m s \<longrightarrow>
             noe_message (translate e (timeout p) i) =
               category_message
                 (if n = ''AbortError'' then TimedOut
                  else if spawn_signature m then CliNotInstalled
                  else if auth_signature m then AuthenticationFailed
                  else if permission_signature m then PermissionDenied
                  else ExecutionFailed)
                 (timeout p) m
           \<and> (\<exists>rest. noe_description (translate e (timeout p) i) = m @ rest))
       \<and> (\<forall>v. e = Thrown_Value v \<longrightarrow>
             noe_message (translate e (timeout p) i)
               = ''Claude Code execution failed: An unknown error occurred''
           \<and> noe_description (translate e (timeout p) i) = ''An unknown error occurred'')"
proof -
  let ?st1 = "\<lparr> returnData = returnData st @ [(error_json e i, i)], armed = ts \<rparr>"
  have step: "exec_items query True i (p # ps) st = exec_items query True (Suc i) ps ?st1"
    using assms by simp
  obtain st' more where st': "exec_items query True (Suc i) ps ?st1 = Inr st'"
    and more: "returnData st' = returnData ?st1 @ more"
    using exec_items_continue [of query "Suc i" ps ?st1] by blast
  have ends: "\<exists>st'. exec_items query True i (p # ps) st = Inr st'
                \<and> (error_json e i, i) \<in> set (returnData st')"
    using step st' more by simp
  have stop: "exec_items query False i (p # ps) st =
           Inl (translate e (timeout p) i, \<lparr> returnData = returnData st, armed = ts \<rparr>)"
    using assms by simp
  have shape: "keys (error_json e i)
            = [''error'', ''errorType'', ''errorDetails'', ''itemIndex'', ''success'']"
    "field (error_json e i) ''itemIndex'' = JNum (int i)"
    "field (error_json e i) ''success'' = JBool False"
    by (simp_all add: error_json_def keys_def)
  have rec_error: "\<forall>n m s. e = Thrown_Error n m s \<longrightarrow>
             field (error_json e i) ''error'' = JStr m
           \<and> field (error_json e i) ''errorType''
               = JStr (if n = ''AbortError'' then ''timeout'' else ''execution_error'')
           \<and> field (error_json e i) ''errorDetails''
               = (case s of None \<Rightarrow> JUndefined | Some t \<Rightarrow> JStr t)"
    by (simp add: error_json_def errorMessage_def isTimeout_def errorDetails_def)
  have rec_value: "\<forall>v. e = Thrown_Value v \<longrightarrow>
             field (error_json e i) ''error'' = JStr ''An unknown error occurred''
           \<and> field (error_json e i) ''errorType'' = JStr ''execution_error''
           \<and> field (error_json e i) ''errorDetails'' = JStr (js_String v)"
    by (simp add: error_json_def errorMessage_def isTimeout_def errorDetails_def)
  have idx: "noe_itemIndex (translate e (timeout p) i) = i"
    by (simp add: translate_def Let_def)
  have raise_error: "\<forall>n m s. e = Thrown_Error n m s \<longrightarrow>
             noe_message (translate e (timeout p) i) =
               category_message
                 (if n = ''AbortError'' then TimedOut
                  else if spawn_signature m then CliNotInstalled
                  else if auth_signature m then AuthenticationFailed
                  else if permission_signature m then PermissionDenied
                  else ExecutionFailed)
                 (timeout p) m
           \<and> (\<exists>rest. noe_description (translate e (timeout p) i) = m @ rest)"
    by (simp add: translate_def Let_def errorMessage_def isTimeout_def
          spawn_signature_def auth_signature_def permission_signature_def)
  have raise_value: "\<forall>v. e = Thrown_Value v \<longrightarrow>
             noe_message (translate e (timeout p) i)
               = ''Claude Code execution failed: An unknown error occurred''
           \<and> noe_description (translate e (timeout p) i) = ''An unknown error occurred''"
    by (simp add: translate_def Let_def errorMessage_def isTimeout_def)
  from step ends shape rec_error rec_value stop idx raise_error raise_value
  show ?thesis by blast
qed

theorem continue_on_fail_policy_witness:
  "execute aborting_sdk True [base_params, base_params] =
     Inr \<lparr> returnData =
             [([(''error'', JStr ''spawn was aborted''), (''errorType'', JStr ''timeout''),
                (''errorDetails'', JUndefined), (''itemIndex'', JNum 0),
                (''success'', JBool False)], 0),
              ([(''error'', JStr ''spawn was aborted''), (''errorType'', JStr ''timeout''),
                (''errorDetails'', JUndefined), (''itemIndex'', JNum 1),
                (''success'', JBool False)], 1)],
           armed = [] \<rparr>
   \<and> execute failing_sdk True [base_params] =
     Inr \<lparr> returnData =
             [([(''error'', JStr ''spawn claude ENOENT: auth permission''),
                (''errorType'', JStr ''execution_error''),
                (''errorDetails'', JStr ''Error: spawn claude ENOENT: auth permission''),
                (''itemIndex'', JNum 0), (''success'', JBool False)], 0)],
           armed = [] \<rparr>
   \<and> (\<exists>err. execute failing_sdk False [base_params, base_params] =
               Inl (err, \<lparr> returnData = [], armed = [] \<rparr>)
           \<and> noe_message err = ''Claude Code CLI is not properly installed or configured.''
           \<and> noe_itemIndex err = 0
           \<and> take 36 (noe_description err) = ''spawn claude ENOENT: auth permission'')"
proof -
  let ?st0 = "\<lparr> returnData = [], armed = [] \<rparr>"
  have t0: "try_item aborting_sdk 0 base_params (armed ?st0) = (Inl abort_error, [])"
    by (simp add: try_item_def Let_def base_params_def trim_def is_space_def
          aborting_sdk_def track_progress_def is_type_def m_init_def
          setTimeout_def clearTimeout_def)
  have t1: "try_item aborting_sdk 1 base_params [] = (Inl abort_error, [])"
    by (simp add: try_item_def Let_def base_params_def trim_def is_space_def
          aborting_sdk_def track_progress_def is_type_def m_init_def
          setTimeout_def clearTimeout_def)
  have f0: "try_item failing_sdk 0 base_params (armed ?st0) = (Inl spawn_error, [])"
    by (simp add: try_item_def Let_def base_params_def trim_def is_space_def
          failing_sdk_def setTimeout_def clearTimeout_def)
  have tmo: "timeout base_params = 300"
    by (simp add: base_params_def)
  have ja: "error_json abort_error i =
      [(''error'', JStr ''spawn was aborted''), (''errorType'', JStr ''timeout''),
       (''errorDetails'', JUndefined), (''itemIndex'', JNum (int i)),
       (''success'', JBool False)]" for i
    by (simp add: error_json_def errorMessage_def isTimeout_def errorDetails_def
          abort_error_def)
  have js: "error_json spawn_error 0 =
      [(''error'', JStr ''spawn claude ENOENT: auth permission''),
       (''errorType'', JStr ''execution_error''),
       (''errorDetails'', JStr ''Error: spawn claude ENOENT: auth permission''),
       (''itemIndex'', JNum 0), (''success'', JBool False)]"
    by (simp add: error_json_def errorMessage_def isTimeout_def errorDetails_def
          spawn_error_def)
  have a: "execute aborting_sdk True [base_params, base_params] =
     Inr \<lparr> returnData = [(error_json abort_error 0, 0), (error_json abort_error 1, 1)],
           armed = [] \<rparr>"
    using continue_on_fail_policy [OF t0, of "[base_params]", THEN conjunct1] t1
    by (simp add: execute_def)
  have b: "execute failing_sdk True [base_params] =
     Inr \<lparr> returnData = [(error_json spawn_error 0, 0)], armed = [] \<rparr>"
    using continue_on_fail_policy [OF f0, of "[]", THEN conjunct1]
    by (simp add: execute_def)
  note all = continue_on_fail_policy [OF f0, of "[base_params]"]
  have c1: "execute failing_sdk False [base_params, base_params] =
       Inl (translate spawn_error 300 0, ?st0)"
    using all tmo by (simp add: execute_def)
  have sig: "spawn_signature ''spawn claude ENOENT: auth permission''"
    by (simp add: spawn_signature_def)
  have c2: "noe_message (translate spawn_error 300 0)
      = ''Claude Code CLI is not properly installed or configured.''"
    using all tmo sig by (simp add: spawn_error_def)
  have c3: "noe_itemIndex (translate spawn_error 300 0) = 0"
    using all tmo by simp
  have "\<exists>rest. noe_description (translate spawn_error 300 0)
          = ''spawn claude ENOENT: auth permission'' @ rest"
    using all tmo by (simp add: spawn_error_def)
  then have c4: "take 36 (noe_description (translate spawn_error 300 0))
      = ''spawn claude ENOENT: auth permission''"
    by auto
  from a b c1 c2 c3 c4 show ?thesis
    by (simp add: ja js)
qed

end
